theory Spec2Isabelle
  imports Complex_Main
begin

section \<open>The FIRe-GAN generator factories of \<open>Models/fire_gan.py\<close>\<close>

text \<open>
  The module builds two generator networks out of Keras layers. A layer is modelled by
  its declared hyperparameters, a \<open>Sequential\<close> container by its list of layers
  together with the shape the framework has inferred so far, and a symbolic tensor of the
  functional interface by the graph that produces it. Every failure the construction can
  meet is a value: an unbound global name (Python's \<open>NameError\<close>), a shape the
  framework rejects, or a constructor argument the framework rejects.
\<close>

subsection \<open>Errors\<close>

datatype error = NameError string | ShapeMismatch | ValueError

definition and_then :: "error + 'a \<Rightarrow> ('a \<Rightarrow> error + 'b) \<Rightarrow> error + 'b" where
  "and_then r f = (case r of Inl e \<Rightarrow> Inl e | Inr v \<Rightarrow> f v)"

subsection \<open>Global names of the module\<close>

text \<open>
  The names bound at module level once the file has been imported: lines 12 to 14 bind
  \<open>tf\<close>, \<open>keras\<close> and four layer classes, lines 16 to 20 the dunder
  attributes, and the four \<open>def\<close> statements their functions. A name that is not
  bound there is looked up among Python's builtins, of which the module uses
  \<open>reversed\<close> and \<open>zip\<close>; no builtin is called
  \<open>SpectralNormalization\<close>.
\<close>

definition module_globals :: "string list" where
  "module_globals =
     [''tf'', ''keras'',
      ''Conv2D'', ''BatchNormalization'', ''Conv2DTranspose'', ''LeakyReLU'',
      ''__author__'', ''__credits__'', ''__license__'', ''__version__'', ''__status__'',
      ''downsample'', ''upsample'', ''create_g1_firegan_unet'', ''create_g2_firegan'']"

definition builtins_used :: "string list" where
  "builtins_used = [''reversed'', ''zip'']"

definition load_name :: "string \<Rightarrow> error + unit" where
  "load_name n =
     (if n \<in> set module_globals \<or> n \<in> set builtins_used then Inr ()
      else Inl (NameError n))"

subsection \<open>Layers\<close>

type_synonym shape = "int list"

datatype padding_mode = Valid | Same

datatype activation_fn = Tanh

datatype initializer = RandomNormal rat rat | HeUniform

text \<open>
  The arguments the module passes to \<open>Conv2D\<close> and \<open>Conv2DTranspose\<close>. An
  integer kernel size or stride \<open>n\<close> stands for \<open>(n, n)\<close>;
  \<open>activation = None\<close> is the framework's default, no activation.
\<close>

record conv_args =
  filters :: int
  kernel_size :: "int \<times> int"
  strides :: "int \<times> int"
  padding :: padding_mode
  kernel_initializer :: initializer
  activation :: "activation_fn option"
  use_bias :: bool

text \<open>
  \<open>LeakyReLU None\<close> is \<open>LeakyReLU()\<close>, with the framework's default slope;
  \<open>LeakyReLU (Some a)\<close> is \<open>LeakyReLU(alpha=a)\<close>.
\<close>

datatype layer =
    Conv2D conv_args
  | Conv2DTranspose conv_args
  | BatchNormalization
  | LeakyReLU "rat option"
  | ReLU
  | Dropout rat
  | SpectralNormalization layer

subsection \<open>Constructing a layer\<close>

text \<open>
  The constructors of \<open>Conv2D\<close> and \<open>Conv2DTranspose\<close> check their
  arguments: a filter count or a kernel size that is not positive raises
  \<open>ValueError\<close>, and no layer is made. The wrapper is made from a layer that
  has been made; the other constructors are called with literals only.
\<close>

definition valid_conv_args :: "conv_args \<Rightarrow> bool" where
  "valid_conv_args a \<longleftrightarrow>
     0 < filters a \<and> 0 < fst (kernel_size a) \<and> 0 < snd (kernel_size a)"

fun init_layer :: "layer \<Rightarrow> error + layer" where
  "init_layer (Conv2D a) = (if valid_conv_args a then Inr (Conv2D a) else Inl ValueError)"
| "init_layer (Conv2DTranspose a) =
     (if valid_conv_args a then Inr (Conv2DTranspose a) else Inl ValueError)"
| "init_layer (SpectralNormalization l) =
     and_then (init_layer l) (\<lambda>l'. Inr (SpectralNormalization l'))"
| "init_layer l = Inr l"

subsection \<open>Shape inference of the framework\<close>

text \<open>
  The framework is not part of the repository; its shape rules are written here as Keras
  documents them. These are the output length of a convolution and of a transposed
  convolution along one spatial axis (\<open>conv_output_length\<close> and
  \<open>deconv_output_length\<close> of its \<open>conv_utils\<close>, dilation 1 and no output
  padding). Python's \<open>//\<close> is \<open>div\<close> on \<open>int\<close>.
\<close>

definition conv_output_length :: "int \<Rightarrow> int \<Rightarrow> padding_mode \<Rightarrow> int \<Rightarrow> int" where
  "conv_output_length input_length filter_size pad stride =
     (let output_length = (case pad of Same \<Rightarrow> input_length
                                      | Valid \<Rightarrow> input_length - filter_size + 1)
      in (output_length + stride - 1) div stride)"

definition deconv_output_length :: "int \<Rightarrow> int \<Rightarrow> padding_mode \<Rightarrow> int \<Rightarrow> int" where
  "deconv_output_length input_length filter_size pad stride =
     (case pad of Valid \<Rightarrow> input_length * stride + max (filter_size - stride) 0
                | Same \<Rightarrow> input_length * stride)"

text \<open>
  Shapes are written without the batch axis, as in \<open>Input(shape=[384, 512, 3])\<close>:
  height, width, channels. A convolution needs such a rank-3 shape and a positive output
  size; the other layers keep the shape, and the spectral-normalization wrapper has the
  shape of the layer it wraps.
\<close>

fun compute_output_shape :: "layer \<Rightarrow> shape \<Rightarrow> error + shape" where
  "compute_output_shape (Conv2D a) s =
     (case s of
        [h, w, c] \<Rightarrow>
          (let h' = conv_output_length h (fst (kernel_size a)) (padding a) (fst (strides a));
               w' = conv_output_length w (snd (kernel_size a)) (padding a) (snd (strides a))
           in if h' \<le> 0 \<or> w' \<le> 0 then Inl ShapeMismatch else Inr [h', w', filters a])
      | _ \<Rightarrow> Inl ShapeMismatch)"
| "compute_output_shape (Conv2DTranspose a) s =
     (case s of
        [h, w, c] \<Rightarrow>
          (let h' = deconv_output_length h (fst (kernel_size a)) (padding a) (fst (strides a));
               w' = deconv_output_length w (snd (kernel_size a)) (padding a) (snd (strides a))
           in if h' \<le> 0 \<or> w' \<le> 0 then Inl ShapeMismatch else Inr [h', w', filters a])
      | _ \<Rightarrow> Inl ShapeMismatch)"
| "compute_output_shape (SpectralNormalization l) s = compute_output_shape l s"
| "compute_output_shape _ s = Inr s"

fun output_shape_through :: "layer list \<Rightarrow> shape \<Rightarrow> error + shape" where
  "output_shape_through [] s = Inr s"
| "output_shape_through (l # ls) s =
     and_then (compute_output_shape l s) (output_shape_through ls)"

subsection \<open>Sequential containers\<close>

text \<open>
  \<open>output_shape\<close> is \<open>None\<close> while the container has no declared input; once
  it has one, every \<open>add\<close> runs the new layer on the current output and so raises
  the framework's shape error at construction time.
\<close>

record sequential =
  input_shape :: "shape option"
  layers :: "layer list"
  output_shape :: "shape option"

definition Sequential :: sequential where
  "Sequential = \<lparr>input_shape = None, layers = [], output_shape = None\<rparr>"

definition add_input :: "sequential \<Rightarrow> shape \<Rightarrow> sequential" where
  "add_input m s = m\<lparr>input_shape := Some s, output_shape := Some s\<rparr>"

definition add :: "sequential \<Rightarrow> layer \<Rightarrow> error + sequential" where
  "add m l =
     (case output_shape m of
        None \<Rightarrow> Inr (m\<lparr>layers := layers m @ [l]\<rparr>)
      | Some s \<Rightarrow>
          and_then (compute_output_shape l s)
            (\<lambda>s'. Inr (m\<lparr>layers := layers m @ [l], output_shape := Some s'\<rparr>)))"

subsection \<open>Generator 2\<close>

text \<open>
  In \<open>create_g2_firegan\<close> a layer is built by calling the bare imported class name,
  and a wrapped layer by calling \<open>SpectralNormalization\<close> on it. Python loads the
  name of the called function before it evaluates the arguments, so the wrapper's name
  is looked up first; the constructors run once the names are found, the innermost first.
\<close>

fun names_loaded :: "layer \<Rightarrow> string list" where
  "names_loaded (Conv2D a) = [''Conv2D'']"
| "names_loaded (Conv2DTranspose a) = [''Conv2DTranspose'']"
| "names_loaded BatchNormalization = [''BatchNormalization'']"
| "names_loaded (LeakyReLU alpha) = [''LeakyReLU'']"
| "names_loaded ReLU = [''ReLU'']"
| "names_loaded (Dropout rate) = [''Dropout'']"
| "names_loaded (SpectralNormalization l) = ''SpectralNormalization'' # names_loaded l"

fun load_names :: "string list \<Rightarrow> error + unit" where
  "load_names [] = Inr ()"
| "load_names (n # ns) = and_then (load_name n) (\<lambda>_. load_names ns)"

definition build_layer :: "layer \<Rightarrow> error + layer" where
  "build_layer l = and_then (load_names (names_loaded l)) (\<lambda>_. init_layer l)"

text \<open>
  The statements \<open>generator2.add(e)\<close> in order: the expression \<open>e\<close> is
  evaluated, then the layer is added.
\<close>

fun add_each :: "sequential \<Rightarrow> layer list \<Rightarrow> error + sequential" where
  "add_each m [] = Inr m"
| "add_each m (e # es) =
     and_then (build_layer e) (\<lambda>l. and_then (add m l) (\<lambda>m'. add_each m' es))"

text \<open>
  What each branch of \<open>create_g2_firegan\<close> declares: the shape given to
  \<open>keras.Input\<close> and the arguments of the thirteen \<open>add\<close> calls that follow
  (lines 119 to 137 and 143 to 161).
\<close>

record g2_branch =
  declared_input :: shape
  declared_layers :: "layer list"

definition g2_spectral_branch :: g2_branch where
  "g2_spectral_branch =
     \<lparr>declared_input = [384, 512, 6],
      declared_layers =
        [SpectralNormalization (Conv2DTranspose
           \<lparr>filters = 256, kernel_size = (5, 5), strides = (1, 1), padding = Valid,
            kernel_initializer = HeUniform, activation = None, use_bias = True\<rparr>),
         BatchNormalization,
         LeakyReLU (Some 0.2),
         SpectralNormalization (Conv2D
           \<lparr>filters = 128, kernel_size = (5, 5), strides = (1, 1), padding = Valid,
            kernel_initializer = HeUniform, activation = None, use_bias = True\<rparr>),
         BatchNormalization,
         LeakyReLU (Some 0.2),
         SpectralNormalization (Conv2DTranspose
           \<lparr>filters = 64, kernel_size = (3, 3), strides = (1, 1), padding = Valid,
            kernel_initializer = HeUniform, activation = None, use_bias = True\<rparr>),
         BatchNormalization,
         LeakyReLU (Some 0.2),
         SpectralNormalization (Conv2D
           \<lparr>filters = 32, kernel_size = (3, 3), strides = (1, 1), padding = Valid,
            kernel_initializer = HeUniform, activation = None, use_bias = True\<rparr>),
         BatchNormalization,
         LeakyReLU (Some 0.2),
         SpectralNormalization (Conv2D
           \<lparr>filters = 3, kernel_size = (1, 1), strides = (1, 1), padding = Valid,
            kernel_initializer = HeUniform, activation = Some Tanh, use_bias = True\<rparr>)]\<rparr>"

definition g2_plain_branch :: g2_branch where
  "g2_plain_branch =
     \<lparr>declared_input = [384, 512, 6],
      declared_layers =
        [Conv2DTranspose
           \<lparr>filters = 256, kernel_size = (5, 5), strides = (1, 1), padding = Valid,
            kernel_initializer = HeUniform, activation = None, use_bias = True\<rparr>,
         BatchNormalization,
         LeakyReLU (Some 0.2),
         Conv2D
           \<lparr>filters = 128, kernel_size = (5, 5), strides = (1, 1), padding = Valid,
            kernel_initializer = HeUniform, activation = None, use_bias = True\<rparr>,
         BatchNormalization,
         LeakyReLU (Some 0.2),
         Conv2DTranspose
           \<lparr>filters = 64, kernel_size = (3, 3), strides = (1, 1), padding = Valid,
            kernel_initializer = HeUniform, activation = None, use_bias = True\<rparr>,
         BatchNormalization,
         LeakyReLU (Some 0.2),
         Conv2D
           \<lparr>filters = 32, kernel_size = (3, 3), strides = (1, 1), padding = Valid,
            kernel_initializer = HeUniform, activation = None, use_bias = True\<rparr>,
         BatchNormalization,
         LeakyReLU (Some 0.2),
         Conv2D
           \<lparr>filters = 3, kernel_size = (1, 1), strides = (1, 1), padding = Valid,
            kernel_initializer = HeUniform, activation = Some Tanh, use_bias = True\<rparr>]\<rparr>"

text \<open>
  Running a branch: \<open>keras.Sequential()\<close>, \<open>add(keras.Input(shape=...))\<close>, then
  the layers. \<open>generator2.summary()\<close> only prints.
\<close>

definition run_branch :: "g2_branch \<Rightarrow> error + sequential" where
  "run_branch b =
     and_then (load_name ''keras'') (\<lambda>_.
       let generator2 = Sequential in
       and_then (load_name ''keras'') (\<lambda>_.
         let generator2 = add_input generator2 (declared_input b) in
         add_each generator2 (declared_layers b)))"

definition create_g2_firegan :: "bool \<Rightarrow> error + sequential" where
  "create_g2_firegan spectral_norm =
     (if spectral_norm then run_branch g2_spectral_branch
      else run_branch g2_plain_branch)"

subsection \<open>The helper factories of Generator 1\<close>

text \<open>
  \<open>downsample\<close> and \<open>upsample\<close> reach every framework object through the
  global \<open>tf\<close>: the name is loaded, the layer is constructed, and the layer is
  added. Their containers have no declared input, so \<open>add\<close> only appends. \<open>strides=2\<close> is \<open>(2, 2)\<close> and the integer \<open>size\<close> is the
  square kernel \<open>(size, size)\<close>.
\<close>

definition add_tf :: "sequential \<Rightarrow> layer \<Rightarrow> error + sequential" where
  "add_tf result l =
     and_then (load_name ''tf'') (\<lambda>_. and_then (init_layer l) (add result))"

definition downsample :: "int \<Rightarrow> int \<Rightarrow> bool \<Rightarrow> error + sequential" where
  "downsample filters' size' apply_batchnorm =
     and_then (load_name ''tf'') (\<lambda>_.
       let initializer = RandomNormal 0 0.02 in
       and_then (load_name ''tf'') (\<lambda>_.
         let result = Sequential in
         and_then (add_tf result (Conv2D
             \<lparr>filters = filters', kernel_size = (size', size'), strides = (2, 2),
              padding = Same, kernel_initializer = initializer, activation = None,
              use_bias = False\<rparr>)) (\<lambda>result.
         and_then (if apply_batchnorm then add_tf result BatchNormalization
                   else Inr result) (\<lambda>result.
         and_then (add_tf result (LeakyReLU None)) (\<lambda>result.
         Inr result)))))"

definition upsample :: "int \<Rightarrow> int \<Rightarrow> bool \<Rightarrow> error + sequential" where
  "upsample filters' size' apply_dropout =
     and_then (load_name ''tf'') (\<lambda>_.
       let initializer = RandomNormal 0 0.02 in
       and_then (load_name ''tf'') (\<lambda>_.
         let result = Sequential in
         and_then (add_tf result (Conv2DTranspose
             \<lparr>filters = filters', kernel_size = (size', size'), strides = (2, 2),
              padding = Same, kernel_initializer = initializer, activation = None,
              use_bias = False\<rparr>)) (\<lambda>result.
         and_then (add_tf result BatchNormalization) (\<lambda>result.
         and_then (if apply_dropout then add_tf result (Dropout 0.5)
                   else Inr result) (\<lambda>result.
         and_then (add_tf result ReLU) (\<lambda>result.
         Inr result))))))"

subsection \<open>Symbolic tensors\<close>

text \<open>
  A symbolic tensor is the graph that produces it: the model input, a container or a
  single layer called on a tensor, or \<open>Concatenate()([a, b])\<close>, which joins two
  tensors along the last axis. The framework infers the shape of a tensor when it is
  created and raises if the shapes do not fit: a container with a declared input accepts
  that shape only, and a concatenation needs equal shapes on every axis but the last.
\<close>

datatype tensor =
    Input shape
  | Apply sequential tensor
  | ApplyLayer layer tensor
  | Concatenate tensor tensor

definition concatenate_shape :: "shape \<Rightarrow> shape \<Rightarrow> error + shape" where
  "concatenate_shape a b =
     (if a \<noteq> [] \<and> length a = length b \<and> butlast a = butlast b
      then Inr (butlast a @ [last a + last b])
      else Inl ShapeMismatch)"

fun shape_of :: "tensor \<Rightarrow> error + shape" where
  "shape_of (Input s) = Inr s"
| "shape_of (Apply m x) =
     (case shape_of x of
        Inl e \<Rightarrow> Inl e
      | Inr s \<Rightarrow>
          (if input_shape m = None \<or> input_shape m = Some s
           then output_shape_through (layers m) s
           else Inl ShapeMismatch))"
| "shape_of (ApplyLayer l x) =
     (case shape_of x of Inl e \<Rightarrow> Inl e | Inr s \<Rightarrow> compute_output_shape l s)"
| "shape_of (Concatenate a b) =
     (case shape_of a of
        Inl e \<Rightarrow> Inl e
      | Inr sa \<Rightarrow>
          (case shape_of b of Inl e \<Rightarrow> Inl e | Inr sb \<Rightarrow> concatenate_shape sa sb))"

definition checked :: "tensor \<Rightarrow> error + tensor" where
  "checked y = and_then (shape_of y) (\<lambda>_. Inr y)"

definition call :: "sequential \<Rightarrow> tensor \<Rightarrow> error + tensor" where
  "call m x = checked (Apply m x)"

definition call_layer :: "layer \<Rightarrow> tensor \<Rightarrow> error + tensor" where
  "call_layer l x = checked (ApplyLayer l x)"

definition concatenate :: "tensor \<Rightarrow> tensor \<Rightarrow> error + tensor" where
  "concatenate a b = and_then (load_name ''tf'') (\<lambda>_. checked (Concatenate a b))"

subsection \<open>Generator 1\<close>

record model =
  inputs :: tensor
  outputs :: tensor

text \<open>The elements of a list display are evaluated from left to right.\<close>

fun collect :: "(error + 'a) list \<Rightarrow> error + 'a list" where
  "collect [] = Inr []"
| "collect (e # es) = and_then e (\<lambda>v. and_then (collect es) (\<lambda>vs. Inr (v # vs)))"

text \<open>
  The loop \<open>for down in down_stack: x = down(x); skips.append(x)\<close>, returning the
  final \<open>x\<close> and \<open>skips\<close>.
\<close>

fun down_loop :: "sequential list \<Rightarrow> tensor \<Rightarrow> tensor list \<Rightarrow> error + tensor \<times> tensor list" where
  "down_loop [] x skips = Inr (x, skips)"
| "down_loop (down # rest) x skips =
     and_then (call down x) (\<lambda>x. down_loop rest x (skips @ [x]))"

text \<open>
  The loop \<open>for up, skip in zip(up_stack, skips): x = up(x); x = Concatenate()([x, skip])\<close>.
\<close>

fun up_loop :: "(sequential \<times> tensor) list \<Rightarrow> tensor \<Rightarrow> error + tensor" where
  "up_loop [] x = Inr x"
| "up_loop ((up, skip) # rest) x =
     and_then (call up x) (\<lambda>x.
     and_then (concatenate x skip) (\<lambda>x.
     up_loop rest x))"

text \<open>
  \<open>downsample(128, 4)\<close> takes the default \<open>apply_batchnorm=True\<close>,
  \<open>upsample(256, 4)\<close> the default \<open>apply_dropout=False\<close>; the last layer leaves
  \<open>use_bias\<close> at the framework's default, true. \<open>skips[:-1]\<close> is
  \<open>butlast\<close> and \<open>reversed\<close> is \<open>rev\<close>. \<open>g1_unet.summary()\<close> only
  prints.
\<close>

definition g1_down_stack :: "(error + sequential) list" where
  "g1_down_stack =
     [downsample 64 4 False,
      downsample 128 4 True,
      downsample 256 4 True,
      downsample 512 4 True,
      downsample 512 4 True,
      downsample 512 4 True,
      downsample 512 4 True]"

definition g1_up_stack :: "(error + sequential) list" where
  "g1_up_stack =
     [upsample 512 4 True,
      upsample 512 4 True,
      upsample 512 4 True,
      upsample 256 4 False,
      upsample 128 4 False,
      upsample 64 4 False]"

definition g1_last :: "error + layer" where
  "g1_last =
     and_then (load_name ''tf'') (\<lambda>_.
       let initializer = RandomNormal 0 0.02 in
       and_then (load_name ''tf'') (\<lambda>_.
         init_layer (Conv2DTranspose
           \<lparr>filters = 3, kernel_size = (4, 4), strides = (2, 2), padding = Same,
            kernel_initializer = initializer, activation = Some Tanh, use_bias = True\<rparr>)))"

definition create_g1_firegan_unet :: "error + model" where
  "create_g1_firegan_unet =
     and_then (load_name ''tf'') (\<lambda>_.
     let inputs = Input [384, 512, 3] in
     and_then (collect g1_down_stack) (\<lambda>down_stack.
     and_then (collect g1_up_stack) (\<lambda>up_stack.
     and_then g1_last (\<lambda>last.
     let x = inputs in
     and_then (down_loop down_stack x []) (\<lambda>(x, skips).
     and_then (load_name ''reversed'') (\<lambda>_.
     let skips = rev (butlast skips) in
     and_then (load_name ''zip'') (\<lambda>_.
     and_then (up_loop (zip up_stack skips) x) (\<lambda>x.
     and_then (call_layer last x) (\<lambda>x.
     and_then (load_name ''tf'') (\<lambda>_.
     let g1_unet = \<lparr>inputs = inputs, outputs = x\<rparr> in
     Inr g1_unet))))))))))"

subsection \<open>The pipeline in the specification's words\<close>

text \<open>
  The input goes through the down-sampling stacks one after the other, and every
  intermediate output is stored.
\<close>

fun stored_outputs :: "sequential list \<Rightarrow> tensor \<Rightarrow> tensor list" where
  "stored_outputs [] x = []"
| "stored_outputs (d # ds) x = Apply d x # stored_outputs ds (Apply d x)"

text \<open>
  Then it goes through the up-sampling stacks one after the other, the output of each
  being concatenated with a stored output.
\<close>

fun upsample_with_skips :: "sequential list \<Rightarrow> tensor list \<Rightarrow> tensor \<Rightarrow> tensor" where
  "upsample_with_skips (u # us) (s # ss) x =
     upsample_with_skips us ss (Concatenate (Apply u x) s)"
| "upsample_with_skips us ss x = x"

text \<open>Last comes one more layer, whose output is the output of the model.\<close>

definition spec_pipeline :: "sequential list \<Rightarrow> sequential list \<Rightarrow> layer \<Rightarrow> tensor \<Rightarrow> tensor" where
  "spec_pipeline downs ups final x =
     (let stored = stored_outputs downs x;
          bottleneck = last (x # stored)
      in ApplyLayer final (upsample_with_skips ups (rev (butlast stored)) bottleneck))"

subsection \<open>Observations on graphs and stacks\<close>

text \<open>
  The concatenations of a graph as pairs of operands, the one nearest to the input first.
\<close>

fun concatenations :: "tensor \<Rightarrow> (tensor \<times> tensor) list" where
  "concatenations (Input s) = []"
| "concatenations (Apply m x) = concatenations x"
| "concatenations (ApplyLayer l x) = concatenations x"
| "concatenations (Concatenate a b) = concatenations a @ concatenations b @ [(a, b)]"

text \<open>
  The tensors on the way from the input to a tensor, following the first operand of
  every concatenation.
\<close>

fun main_path :: "tensor \<Rightarrow> tensor list" where
  "main_path (Input s) = [Input s]"
| "main_path (Apply m x) = main_path x @ [Apply m x]"
| "main_path (ApplyLayer l x) = main_path x @ [ApplyLayer l x]"
| "main_path (Concatenate a b) = main_path a @ [Concatenate a b]"

definition spatial :: "error + shape \<Rightarrow> error + shape" where
  "spatial r = map_sum id (take 2) r"

text \<open>The shape after each layer of a stack, from a given input shape.\<close>

fun shapes_through :: "layer list \<Rightarrow> shape \<Rightarrow> (error + shape) list" where
  "shapes_through [] s = []"
| "shapes_through (l # ls) s =
     (case compute_output_shape l s of
        Inl e \<Rightarrow> [Inl e]
      | Inr s' \<Rightarrow> Inr s' # shapes_through ls s')"

fun is_convolution :: "layer \<Rightarrow> bool" where
  "is_convolution (Conv2D a) = True"
| "is_convolution (Conv2DTranspose a) = True"
| "is_convolution l = False"

fun unwrap :: "layer \<Rightarrow> layer" where
  "unwrap (SpectralNormalization l) = l"
| "unwrap l = l"

definition wrap_convolution :: "layer \<Rightarrow> layer" where
  "wrap_convolution l = (if is_convolution l then SpectralNormalization l else l)"

fun conv_args_of :: "layer \<Rightarrow> conv_args option" where
  "conv_args_of (Conv2D a) = Some a"
| "conv_args_of (Conv2DTranspose a) = Some a"
| "conv_args_of l = None"

section \<open>Properties\<close>

subsection \<open>Name resolution and sequencing\<close>

lemma and_then_Inr: "and_then (Inr v) f = f v"
  by (simp add: and_then_def)

lemma and_then_eq_Inr: "and_then r f = Inr v \<longleftrightarrow> (\<exists>a. r = Inr a \<and> f a = Inr v)"
  by (cases r) (simp_all add: and_then_def)

lemma load_name_tf: "load_name ''tf'' = Inr ()"
  by (simp add: load_name_def module_globals_def)

lemma load_name_keras: "load_name ''keras'' = Inr ()"
  by (simp add: load_name_def module_globals_def)

lemma load_name_reversed: "load_name ''reversed'' = Inr ()"
  by (simp add: load_name_def builtins_used_def)

lemma load_name_zip: "load_name ''zip'' = Inr ()"
  by (simp add: load_name_def builtins_used_def)

lemma load_name_SpectralNormalization:
  "load_name ''SpectralNormalization'' = Inl (NameError ''SpectralNormalization'')"
  by (simp add: load_name_def module_globals_def builtins_used_def)

lemma build_layer_SpectralNormalization:
  "build_layer (SpectralNormalization l) = Inl (NameError ''SpectralNormalization'')"
  by (simp add: build_layer_def and_then_def load_name_SpectralNormalization)

subsection \<open>The helper factories\<close>

lemma downsample_eq:
  "downsample f k bn =
     (if 0 < f \<and> 0 < k
      then Inr \<lparr>input_shape = None,
          layers =
            Conv2D \<lparr>filters = f, kernel_size = (k, k), strides = (2, 2), padding = Same,
                    kernel_initializer = RandomNormal 0 0.02, activation = None,
                    use_bias = False\<rparr>
            # (if bn then [BatchNormalization] else []) @ [LeakyReLU None],
          output_shape = None\<rparr>
      else Inl ValueError)"
  by (simp add: downsample_def add_tf_def add_def Sequential_def load_name_tf and_then_def
      valid_conv_args_def)

lemma upsample_eq:
  "upsample f k dr =
     (if 0 < f \<and> 0 < k
      then Inr \<lparr>input_shape = None,
          layers =
            [Conv2DTranspose \<lparr>filters = f, kernel_size = (k, k), strides = (2, 2),
                    padding = Same, kernel_initializer = RandomNormal 0 0.02,
                    activation = None, use_bias = False\<rparr>,
             BatchNormalization]
            @ (if dr then [Dropout 0.5] else []) @ [ReLU],
          output_shape = None\<rparr>
      else Inl ValueError)"
  by (simp add: upsample_def add_tf_def add_def Sequential_def load_name_tf and_then_def
      valid_conv_args_def)

subsection \<open>The loops of Generator 1, for any stacks\<close>

lemma down_loop_stored:
  "down_loop ds x acc = Inr (y, sk) \<Longrightarrow>
     y = last (x # stored_outputs ds x) \<and> sk = acc @ stored_outputs ds x"
proof (induction ds arbitrary: x acc)
  case Nil
  then show ?case by simp
next
  case (Cons d ds)
  from Cons.prems obtain x' where c: "call d x = Inr x'"
    and r: "down_loop ds x' (acc @ [x']) = Inr (y, sk)"
    by (auto simp: and_then_eq_Inr)
  from c have x': "x' = Apply d x"
    by (auto simp: call_def checked_def and_then_eq_Inr)
  from Cons.IH [OF r] x' show ?case by (cases ds) auto
qed

lemma up_loop_skips:
  "up_loop (zip us ss) x = Inr y \<Longrightarrow> y = upsample_with_skips us ss x"
proof (induction us ss x rule: upsample_with_skips.induct)
  case (1 u us s ss x)
  from "1.prems" obtain a b where "call u x = Inr a" "concatenate a s = Inr b"
    and r: "up_loop (zip us ss) b = Inr y"
    by (auto simp: and_then_eq_Inr)
  then have "b = Concatenate (Apply u x) s"
    by (auto simp: call_def concatenate_def checked_def and_then_eq_Inr)
  with "1.IH" r show ?case by simp
qed simp_all

lemma loops_compute_pipeline:
  assumes "down_loop downs x [] = Inr (y, sk)"
    and "up_loop (zip ups (rev (butlast sk))) y = Inr z"
    and "call_layer final z = Inr out"
  shows "out = spec_pipeline downs ups final x"
proof -
  from assms(1) have y: "y = last (x # stored_outputs downs x)"
    and sk: "sk = stored_outputs downs x"
    using down_loop_stored [of downs x "[]" y sk] by simp_all
  from assms(2) have z: "z = upsample_with_skips ups (rev (butlast sk)) y"
    by (rule up_loop_skips)
  from assms(3) have "out = ApplyLayer final z"
    by (auto simp: call_layer_def checked_def and_then_eq_Inr)
  with y sk z show ?thesis
    by (simp add: spec_pipeline_def Let_def)
qed

subsection \<open>Running the two generators\<close>

lemma collect_g1_down_stack: "collect g1_down_stack = Inr (map projr g1_down_stack)"
  by (simp add: g1_down_stack_def downsample_eq and_then_Inr)

lemma collect_g1_up_stack: "collect g1_up_stack = Inr (map projr g1_up_stack)"
  by (simp add: g1_up_stack_def upsample_eq and_then_Inr)

lemma g1_last_eq:
  "g1_last =
     Inr (Conv2DTranspose
           \<lparr>filters = 3, kernel_size = (4, 4), strides = (2, 2), padding = Same,
            kernel_initializer = RandomNormal 0 0.02, activation = Some Tanh,
            use_bias = True\<rparr>)"
  by (simp add: g1_last_def load_name_tf and_then_Inr valid_conv_args_def)

lemmas g1_build =
  create_g1_firegan_unet_def g1_down_stack_def g1_up_stack_def g1_last_eq
  downsample_eq upsample_eq load_name_tf load_name_reversed load_name_zip and_then_Inr
  call_def call_layer_def concatenate_def checked_def conv_output_length_def
  deconv_output_length_def concatenate_shape_def Let_def

lemma create_g1_firegan_unet_returns: "\<exists>g. create_g1_firegan_unet = Inr g"
  by (simp add: g1_build)

lemma create_g2_firegan_plain:
  "create_g2_firegan False =
     Inr \<lparr>input_shape = Some [384, 512, 6],
          layers = declared_layers g2_plain_branch,
          output_shape = Some [384, 512, 3]\<rparr>"
  by (simp add: create_g2_firegan_def run_branch_def g2_plain_branch_def load_name_keras
      and_then_Inr Sequential_def add_input_def build_layer_def load_name_def
      module_globals_def valid_conv_args_def add_def conv_output_length_def
      deconv_output_length_def)

lemma create_g2_firegan_spectral:
  "create_g2_firegan True = Inl (NameError ''SpectralNormalization'')"
  by (simp add: create_g2_firegan_def run_branch_def g2_spectral_branch_def
      load_name_keras and_then_Inr Let_def)
     (simp add: and_then_def build_layer_SpectralNormalization)

subsection \<open>The claims\<close>

text \<open>
  C1. The claim: for both values of \<open>spectral_norm\<close> the call
  \<open>create_g2_firegan(spectral_norm)\<close> succeeds and returns a linear stack of five
  convolution blocks, each convolution wrapped in spectral normalization when the flag is
  true. The code does not do this for the value true: the module never binds
  \<open>SpectralNormalization\<close>, so the first \<open>add\<close> of the spectral branch raises
  \<open>NameError\<close> and no model is returned.
\<close>

theorem create_g2_firegan_spectral_raises:
  "create_g2_firegan True = Inl (NameError ''SpectralNormalization'')"
  by (rule create_g2_firegan_spectral)

text \<open>
  C2. The claim: construction can only fail with a shape error of the framework, never
  with an error of the repository's own code. With the flag true
  \<open>create_g2_firegan\<close> fails, and the failure is the unbound name, not a shape
  error.
\<close>

theorem create_g2_firegan_error_is_no_shape_error:
  "isl (create_g2_firegan True) \<and>
   create_g2_firegan True \<noteq> Inl ShapeMismatch \<and>
   (\<exists>n. create_g2_firegan True = Inl (NameError n))"
  by (simp add: create_g2_firegan_spectral)

text \<open>
  C3. The model returned by \<open>create_g1_firegan_unet\<close> is exactly the pipeline of
  the specification: all seven down-sampling stacks and all six up-sampling stacks are
  built, the input goes through the down-sampling stacks in order with every output
  stored, then through the up-sampling stacks in order, each output concatenated with a
  stored output, and finally through one transposed convolution, whose output is the
  output of the model.
\<close>

theorem g1_pipeline:
  "collect g1_down_stack = Inr (map projr g1_down_stack) \<and> length g1_down_stack = 7 \<and>
   collect g1_up_stack = Inr (map projr g1_up_stack) \<and> length g1_up_stack = 6 \<and>
   g1_last =
     Inr (Conv2DTranspose
           \<lparr>filters = 3, kernel_size = (4, 4), strides = (2, 2), padding = Same,
            kernel_initializer = RandomNormal 0 0.02, activation = Some Tanh,
            use_bias = True\<rparr>) \<and>
   create_g1_firegan_unet =
     Inr \<lparr>inputs = Input [384, 512, 3],
          outputs = spec_pipeline (map projr g1_down_stack) (map projr g1_up_stack)
                      (projr g1_last) (Input [384, 512, 3])\<rparr>"
proof -
  let ?D = "map projr g1_down_stack" and ?U = "map projr g1_up_stack"
  let ?L = "Conv2DTranspose
           \<lparr>filters = 3, kernel_size = (4, 4), strides = (2, 2), padding = Same,
            kernel_initializer = RandomNormal 0 0.02, activation = Some Tanh,
            use_bias = True\<rparr>"
  let ?X = "Input [384, 512, 3]"
  have run: "create_g1_firegan_unet =
      and_then (down_loop ?D ?X []) (\<lambda>(x, skips).
      and_then (up_loop (zip ?U (rev (butlast skips))) x) (\<lambda>x.
      and_then (call_layer ?L x) (\<lambda>x. Inr \<lparr>inputs = ?X, outputs = x\<rparr>)))"
    unfolding create_g1_firegan_unet_def collect_g1_down_stack collect_g1_up_stack g1_last_eq
    by (simp add: load_name_tf load_name_reversed load_name_zip and_then_Inr Let_def)
  obtain g where g: "create_g1_firegan_unet = Inr g"
    using create_g1_firegan_unet_returns by blast
  with run have "and_then (down_loop ?D ?X []) (\<lambda>(x, skips).
      and_then (up_loop (zip ?U (rev (butlast skips))) x) (\<lambda>x.
      and_then (call_layer ?L x) (\<lambda>x. Inr \<lparr>inputs = ?X, outputs = x\<rparr>))) = Inr g"
    by simp
  then obtain y sk z out
    where "down_loop ?D ?X [] = Inr (y, sk)"
      and "up_loop (zip ?U (rev (butlast sk))) y = Inr z"
      and "call_layer ?L z = Inr out"
      and "g = \<lparr>inputs = ?X, outputs = out\<rparr>"
    by (auto simp: and_then_eq_Inr)
  then have "g = \<lparr>inputs = ?X, outputs = spec_pipeline ?D ?U ?L ?X\<rparr>"
    using loops_compute_pipeline by blast
  with g have "create_g1_firegan_unet =
      Inr \<lparr>inputs = ?X, outputs = spec_pipeline ?D ?U ?L ?X\<rparr>"
    by simp
  moreover have "length g1_down_stack = 7" "length g1_up_stack = 6"
    by (simp_all add: g1_down_stack_def g1_up_stack_def)
  ultimately show ?thesis
    using collect_g1_down_stack collect_g1_up_stack by (simp add: g1_last_eq)
qed

text \<open>
  C4. For the declared input shape and the declared filters and strides, Generator 1 is
  built without error, and at each of its six concatenations the output of the
  up-sampling stack and the stored down-sampling output have the same height and width
  (here even the same channel count), so that every concatenation has a shape.
\<close>

theorem g1_skip_shapes:
  "\<exists>g. create_g1_firegan_unet = Inr g \<and>
     map (\<lambda>(u, s). (shape_of u, shape_of s)) (concatenations (outputs g)) =
       [(Inr [6, 8, 512], Inr [6, 8, 512]),
        (Inr [12, 16, 512], Inr [12, 16, 512]),
        (Inr [24, 32, 512], Inr [24, 32, 512]),
        (Inr [48, 64, 256], Inr [48, 64, 256]),
        (Inr [96, 128, 128], Inr [96, 128, 128]),
        (Inr [192, 256, 64], Inr [192, 256, 64])] \<and>
     map (\<lambda>(u, s). spatial (shape_of u) = spatial (shape_of s)) (concatenations (outputs g)) =
       replicate 6 True \<and>
     map (\<lambda>(u, s). shape_of (Concatenate u s)) (concatenations (outputs g)) =
       [Inr [6, 8, 1024], Inr [12, 16, 1024], Inr [24, 32, 1024],
        Inr [48, 64, 512], Inr [96, 128, 256], Inr [192, 256, 128]]"
  by (simp add: g1_build spatial_def numeral_eq_Suc)

text \<open>
  C5. The claim: the two branches of \<open>create_g2_firegan\<close> construct stacks with
  the same hyperparameters, which differ only in the wrapper around the five convolution
  layers. The code does not do this. The plain branch constructs the thirteen layers it
  declares, five of them convolutions. The spectral branch declares the same layers with
  each convolution wrapped, but it constructs no stack: building its first layer raises
  \<open>NameError\<close>, so the call returns no model.
\<close>

theorem g2_spectral_branch_constructs_no_stack:
  "(\<forall>m. create_g2_firegan True \<noteq> Inr m) \<and>
   build_layer (hd (declared_layers g2_spectral_branch)) =
     Inl (NameError ''SpectralNormalization'') \<and>
   declared_layers g2_spectral_branch =
     map wrap_convolution (declared_layers g2_plain_branch) \<and>
   map unwrap (declared_layers g2_spectral_branch) = declared_layers g2_plain_branch \<and>
   declared_input g2_spectral_branch = declared_input g2_plain_branch \<and>
   create_g2_firegan False =
     Inr \<lparr>input_shape = Some (declared_input g2_plain_branch),
          layers = declared_layers g2_plain_branch,
          output_shape = Some [384, 512, 3]\<rparr> \<and>
   length (filter is_convolution (declared_layers g2_plain_branch)) = 5"
proof -
  have "\<forall>m. create_g2_firegan True \<noteq> Inr m"
    by (simp add: create_g2_firegan_spectral)
  moreover have "build_layer (hd (declared_layers g2_spectral_branch)) =
      Inl (NameError ''SpectralNormalization'')"
    by (simp add: g2_spectral_branch_def build_layer_SpectralNormalization)
  moreover have "declared_layers g2_spectral_branch =
      map wrap_convolution (declared_layers g2_plain_branch)"
    and "map unwrap (declared_layers g2_spectral_branch) = declared_layers g2_plain_branch"
    and "declared_input g2_spectral_branch = declared_input g2_plain_branch"
    and "length (filter is_convolution (declared_layers g2_plain_branch)) = 5"
    by (simp_all add: g2_spectral_branch_def g2_plain_branch_def wrap_convolution_def)
  moreover have "create_g2_firegan False =
      Inr \<lparr>input_shape = Some (declared_input g2_plain_branch),
           layers = declared_layers g2_plain_branch,
           output_shape = Some [384, 512, 3]\<rparr>"
    using create_g2_firegan_plain by (simp add: g2_plain_branch_def)
  ultimately show ?thesis by blast
qed

text \<open>
  C6. The claim is stated for every integer \<open>filters\<close> and \<open>size\<close>, but
  the constructor of the convolution rejects an argument that is not positive:
  \<open>downsample(0, 4)\<close> raises \<open>ValueError\<close> and returns no stack.
\<close>

theorem helper_stacks_counterexample:
  "downsample 0 4 True = Inl ValueError \<and>
   downsample 0 4 True \<noteq>
     Inr \<lparr>input_shape = None,
          layers =
            [Conv2D \<lparr>filters = 0, kernel_size = (4, 4), strides = (2, 2), padding = Same,
                    kernel_initializer = RandomNormal 0 0.02, activation = None,
                    use_bias = False\<rparr>,
             BatchNormalization, LeakyReLU None],
          output_shape = None\<rparr>"
  by (simp add: downsample_eq)

text \<open>
  C6, amended. For all positive integers \<open>filters\<close> and \<open>size\<close>,
  \<open>downsample\<close> returns the stack of a stride-2, same-padding, bias-free
  convolution, a batch normalization exactly when \<open>apply_batchnorm\<close> is true, and a
  LeakyReLU; \<open>upsample\<close> returns the stack of a stride-2, same-padding, bias-free
  transposed convolution, a batch normalization, a dropout of rate 0.5 exactly when
  \<open>apply_dropout\<close> is true, and a ReLU.
\<close>

theorem helper_stacks:
  assumes "0 < f" and "0 < k"
  shows "downsample f k bn =
     Inr \<lparr>input_shape = None,
          layers =
            Conv2D \<lparr>filters = f, kernel_size = (k, k), strides = (2, 2), padding = Same,
                    kernel_initializer = RandomNormal 0 0.02, activation = None,
                    use_bias = False\<rparr>
            # (if bn then [BatchNormalization] else []) @ [LeakyReLU None],
          output_shape = None\<rparr> \<and>
   upsample f k dr =
     Inr \<lparr>input_shape = None,
          layers =
            [Conv2DTranspose \<lparr>filters = f, kernel_size = (k, k), strides = (2, 2),
                    padding = Same, kernel_initializer = RandomNormal 0 0.02,
                    activation = None, use_bias = False\<rparr>,
             BatchNormalization]
            @ (if dr then [Dropout 0.5] else []) @ [ReLU],
          output_shape = None\<rparr>"
  using assms downsample_eq [of f k bn] upsample_eq [of f k dr] by simp

theorem helper_stacks_witness:
  "(0::int) < 64 \<and> (0::int) < 4 \<and>
   downsample 64 4 False =
     Inr \<lparr>input_shape = None,
          layers =
            [Conv2D \<lparr>filters = 64, kernel_size = (4, 4), strides = (2, 2), padding = Same,
                    kernel_initializer = RandomNormal 0 0.02, activation = None,
                    use_bias = False\<rparr>,
             LeakyReLU None],
          output_shape = None\<rparr> \<and>
   upsample 64 4 True =
     Inr \<lparr>input_shape = None,
          layers =
            [Conv2DTranspose \<lparr>filters = 64, kernel_size = (4, 4), strides = (2, 2),
                    padding = Same, kernel_initializer = RandomNormal 0 0.02,
                    activation = None, use_bias = False\<rparr>,
             BatchNormalization, Dropout 0.5, ReLU],
          output_shape = None\<rparr>"
  using helper_stacks [of 64 4 False True] by simp

text \<open>
  C7. Whenever \<open>create_g2_firegan\<close> returns a model, the model declares the
  six-channel input of shape \<open>(384, 512, 6)\<close>, its last layer is a convolution with
  three filters and \<open>tanh\<close> activation, and its output has three channels.
\<close>

theorem g2_fusion_interface:
  assumes "create_g2_firegan spectral_norm = Inr m"
  shows "input_shape m = Some [384, 512, 6] \<and>
         last (layers m) = Conv2D
           \<lparr>filters = 3, kernel_size = (1, 1), strides = (1, 1), padding = Valid,
            kernel_initializer = HeUniform, activation = Some Tanh, use_bias = True\<rparr> \<and>
         output_shape m = Some [384, 512, 3]"
proof (cases spectral_norm)
  case True
  with assms show ?thesis
    by (simp add: create_g2_firegan_spectral)
next
  case False
  with assms create_g2_firegan_plain
  have "m = \<lparr>input_shape = Some [384, 512, 6],
             layers = declared_layers g2_plain_branch,
             output_shape = Some [384, 512, 3]\<rparr>"
    by simp
  then show ?thesis by (simp add: g2_plain_branch_def)
qed

theorem g2_fusion_interface_witness:
  "create_g2_firegan False =
     Inr \<lparr>input_shape = Some [384, 512, 6],
          layers = declared_layers g2_plain_branch,
          output_shape = Some [384, 512, 3]\<rparr> \<and>
   last (declared_layers g2_plain_branch) = Conv2D
     \<lparr>filters = 3, kernel_size = (1, 1), strides = (1, 1), padding = Valid,
      kernel_initializer = HeUniform, activation = Some Tanh, use_bias = True\<rparr>"
  using g2_fusion_interface [OF create_g2_firegan_plain] create_g2_firegan_plain by simp

text \<open>
  C8. Generator 1 keeps the shape: from the input \<open>[384, 512, 3]\<close> the seven
  down-sampling stacks reach height 3 and width 4, the six up-sampling stacks and the last
  transposed convolution double them back, and the output has shape
  \<open>[384, 512, 3]\<close>, not the \<open>256 \<times> 256\<close> of the comments in the code.
\<close>

theorem g1_shape_preserving:
  "\<exists>g. create_g1_firegan_unet = Inr g \<and>
     map shape_of (main_path (outputs g)) =
       [Inr [384, 512, 3],
        Inr [192, 256, 64], Inr [96, 128, 128], Inr [48, 64, 256], Inr [24, 32, 512],
        Inr [12, 16, 512], Inr [6, 8, 512], Inr [3, 4, 512],
        Inr [6, 8, 512], Inr [6, 8, 1024], Inr [12, 16, 512], Inr [12, 16, 1024],
        Inr [24, 32, 512], Inr [24, 32, 1024], Inr [48, 64, 256], Inr [48, 64, 512],
        Inr [96, 128, 128], Inr [96, 128, 256], Inr [192, 256, 64], Inr [192, 256, 128],
        Inr [384, 512, 3]] \<and>
     map shape_of (stored_outputs (map projr g1_down_stack) (inputs g)) =
       [Inr [192, 256, 64], Inr [96, 128, 128], Inr [48, 64, 256], Inr [24, 32, 512],
        Inr [12, 16, 512], Inr [6, 8, 512], Inr [3, 4, 512]] \<and>
     shape_of (inputs g) = Inr [384, 512, 3] \<and>
     shape_of (outputs g) = Inr [384, 512, 3] \<and>
     shape_of (outputs g) \<noteq> Inr [256, 256, 3]"
  by (simp add: g1_build)

text \<open>
  C9. Without spectral normalization Generator 2 keeps the height and width although all
  five convolutions use valid padding and stride 1: their changes of +4, -4, +2, -2 and 0
  cancel, and the model maps the shape \<open>[384, 512, 6]\<close> to \<open>[384, 512, 3]\<close>.
\<close>

theorem g2_plain_shape_preserving:
  "\<exists>m. create_g2_firegan False = Inr m \<and>
     input_shape m = Some [384, 512, 6] \<and>
     output_shape m = Some [384, 512, 3] \<and>
     map (map_option padding \<circ> conv_args_of) (filter is_convolution (layers m)) =
       replicate 5 (Some Valid) \<and>
     map (map_option strides \<circ> conv_args_of) (filter is_convolution (layers m)) =
       replicate 5 (Some (1, 1)) \<and>
     shapes_through (layers m) [384, 512, 6] =
       [Inr [388, 516, 256], Inr [388, 516, 256], Inr [388, 516, 256],
        Inr [384, 512, 128], Inr [384, 512, 128], Inr [384, 512, 128],
        Inr [386, 514, 64], Inr [386, 514, 64], Inr [386, 514, 64],
        Inr [384, 512, 32], Inr [384, 512, 32], Inr [384, 512, 32],
        Inr [384, 512, 3]] \<and>
     (\<forall>n. deconv_output_length n 5 Valid 1 = n + 4 \<and>
          conv_output_length n 5 Valid 1 = n - 4 \<and>
          deconv_output_length n 3 Valid 1 = n + 2 \<and>
          conv_output_length n 3 Valid 1 = n - 2 \<and>
          conv_output_length n 1 Valid 1 = n)"
  by (simp add: create_g2_firegan_plain g2_plain_branch_def conv_output_length_def
      deconv_output_length_def numeral_eq_Suc)

text \<open>
  C10. In Generator 1 the seven down-sampling outputs are pairwise different tensors and
  there are exactly six concatenations. For every \<open>i\<close> from 0 to 5 the
  \<open>i\<close>-th concatenation joins the output of \<open>up_stack[i]\<close> with the output of
  \<open>down_stack[5 - i]\<close>; \<open>up_stack[0]\<close> is applied to the seventh
  down-sampling output, every later one to the preceding concatenation, and the seventh
  output is the second operand of no concatenation.
\<close>

theorem g1_skip_wiring:
  "\<exists>g. create_g1_firegan_unet = Inr g \<and>
     (let D = stored_outputs (map projr g1_down_stack) (inputs g);
          U = map projr g1_up_stack;
          C = concatenations (outputs g)
      in length D = 7 \<and> distinct D \<and> length C = 6 \<and>
         map snd C = map (\<lambda>i. D ! (5 - i)) [0..<6] \<and>
         map fst C =
           map (\<lambda>i. Apply (U ! i)
                      (if i = 0 then D ! 6
                       else Concatenate (fst (C ! (i - 1))) (snd (C ! (i - 1)))))
             [0..<6] \<and>
         D ! 6 \<notin> set (map snd C))"
  by (simp add: g1_build upt_rec numeral_eq_Suc)

end
